theory Spec2Isabelle
  imports Main "HOL-Library.Word"
begin

section \<open>Data model\<close>

text \<open>
  Go's \<^verbatim>\<open>int64\<close> is a 64-bit word read as two's complement: the comparisons of the
  scheduler are the signed ones (\<open><s\<close>). \<^verbatim>\<open>time.Duration\<close> is an \<^verbatim>\<open>int64\<close> too.
\<close>

type_synonym int64 = "64 word"

text \<open>
  \<^verbatim>\<open>models.RecentAction\<close>: the scheduler reads one field of it, \<^verbatim>\<open>TimeSeconds\<close>, and
  compares it with the \<^verbatim>\<open>int64\<close> field \<^verbatim>\<open>lastInsertedTimestamp\<close>. Every other field of
  the struct is payload and lives in the extension slot \<open>'p\<close> of the record.
\<close>

record RecentAction =
  TimeSeconds :: int64

text \<open>
  A Go slice is either \<^verbatim>\<open>nil\<close> (\<open>None\<close>) or holds a sequence of elements (\<open>Some xs\<close>,
  where \<open>xs\<close> may be empty). \<^verbatim>\<open>range\<close> does not tell \<^verbatim>\<open>nil\<close> from the
  empty slice, the test \<^verbatim>\<open>s == nil\<close> does; \<^verbatim>\<open>append\<close> never returns \<^verbatim>\<open>nil\<close> when it is
  given an element.
\<close>

type_synonym 'a slice = "'a list option"

definition elems :: "'a slice \<Rightarrow> 'a list" where
  "elems s = (case s of None \<Rightarrow> [] | Some xs \<Rightarrow> xs)"

definition append_go :: "'a slice \<Rightarrow> 'a \<Rightarrow> 'a slice" where
  "append_go s x = Some (elems s @ [x])"

text \<open>
  \<^verbatim>\<open>CodeforcesScheduler\<close>. The fields \<^verbatim>\<open>cfClient\<close> and \<^verbatim>\<open>cfStore\<close> are interface
  handles that are set once by \<^verbatim>\<open>NewScheduler\<close>; what the two collaborators answer is
  given to each cycle from outside (see \<open>collaborators\<close> below). \<^verbatim>\<open>batchSize\<close> is a Go
  \<^verbatim>\<open>int\<close> that is only handed on to the client.
\<close>

record CodeforcesScheduler =
  cooldown :: int64
  lastInsertedTimestamp :: int64
  batchSize :: int

section \<open>The scheduler's filter\<close>

text \<open>
  The body of the \<^verbatim>\<open>for _, action := range actions\<close> loop of \<^verbatim>\<open>filter\<close>, with the two
  local variables \<^verbatim>\<open>maxTimestampAfterInsertion\<close> and \<^verbatim>\<open>newActions\<close> as accumulators;
  \<open>w\<close> is \<^verbatim>\<open>sch.lastInsertedTimestamp\<close>, which the loop reads and never assigns.
\<close>

fun filter_loop ::
  "int64 \<Rightarrow> 'p RecentAction_scheme list \<Rightarrow> int64 \<Rightarrow> 'p RecentAction_scheme slice
    \<Rightarrow> 'p RecentAction_scheme slice \<times> int64" where
  "filter_loop w [] maxTimestampAfterInsertion newActions =
     (newActions, maxTimestampAfterInsertion)"
| "filter_loop w (action # rest) maxTimestampAfterInsertion newActions =
     (let now = TimeSeconds action;
          maxTimestampAfterInsertion' =
            (if maxTimestampAfterInsertion <s now then now else maxTimestampAfterInsertion);
          newActions' = (if w <s now then append_go newActions action else newActions)
      in filter_loop w rest maxTimestampAfterInsertion' newActions')"

text \<open>
  \<^verbatim>\<open>filter\<close> has a pointer receiver, so it could write to the scheduler: the model
  returns the scheduler as it is after the call, next to the two results.
\<close>

definition filter_sch ::
  "CodeforcesScheduler \<Rightarrow> 'p RecentAction_scheme slice
    \<Rightarrow> ('p RecentAction_scheme slice \<times> int64) \<times> CodeforcesScheduler" where
  "filter_sch sch actions =
     (filter_loop (lastInsertedTimestamp sch) (elems actions) (lastInsertedTimestamp sch) None,
      sch)"

text \<open>An item with timestamp \<open>t\<close> and no payload, as the test vectors write \<^verbatim>\<open>{t:3}\<close>.\<close>

definition item :: "int64 \<Rightarrow> RecentAction" where
  "item t = \<lparr>TimeSeconds = t\<rparr>"

text \<open>A scheduler whose watermark is \<open>w\<close>.\<close>

definition sch_at :: "int64 \<Rightarrow> CodeforcesScheduler" where
  "sch_at w = \<lparr>cooldown = 300000000000, lastInsertedTimestamp = w, batchSize = 100\<rparr>"

section \<open>Errors and observable events\<close>

text \<open>
  A Go \<^verbatim>\<open>error\<close> value is either one that a library call produced (net/http, io,
  encoding/json, the MongoDB driver), or one built by \<^verbatim>\<open>fmt.Errorf\<close>: wrapping another
  error with the verb \<^verbatim>\<open>%w\<close>, or formatting a string with \<^verbatim>\<open>%s\<close>. The format strings
  are the ones of the source. A \<^verbatim>\<open>nil\<close> error is \<open>None\<close> of \<open>error option\<close>.
\<close>

datatype error =
    LibraryError string
  | Errorf_w string error
  | Errorf_s string string

text \<open>The aggregation pipeline that the store sends: one \<^verbatim>\<open>$group\<close> stage over all
  documents (\<^verbatim>\<open>_id: nil\<close>) whose field \<^verbatim>\<open>max\<close> is the \<^verbatim>\<open>$max\<close> of the named field.\<close>

datatype pipeline = Group_all_max string

text \<open>
  What the program does to the outside, in the order it does it: the calls to the two
  collaborators of the scheduler, the calls of the store to the MongoDB driver, the
  error reports (\<^verbatim>\<open>zap.S().Errorf\<close>) and the sleeps. Info and debug log lines
  influence nothing and are not recorded.
\<close>

datatype 'p event =
    Call_RecentActions int
  | Call_AddRecentActions "'p RecentAction_scheme slice"
  | Call_InsertMany "'p RecentAction_scheme slice"
  | Call_Aggregate pipeline
  | Log_Errorf string error
  | Sleep int64

section \<open>The scheduler\<close>

text \<open>
  The answers of the two collaborators during one cycle: what
  \<^verbatim>\<open>sch.cfClient.RecentActions\<close> returns for a batch size (Go's pair of a slice and an
  error), and what \<^verbatim>\<open>sch.cfStore.AddRecentActions\<close> returns for a slice.
\<close>

record 'p collaborators =
  RecentActions_result :: "int \<Rightarrow> 'p RecentAction_scheme slice \<times> error option"
  AddRecentActions_result :: "'p RecentAction_scheme slice \<Rightarrow> error option"

text \<open>
  The body of the \<^verbatim>\<open>for\<close> loop of \<^verbatim>\<open>Start\<close>: one cycle. It returns the scheduler after
  the cycle and the events of the cycle.
\<close>

definition cycle ::
  "'p collaborators \<Rightarrow> CodeforcesScheduler \<Rightarrow> CodeforcesScheduler \<times> 'p event list" where
  "cycle env sch =
     (let (actions, err) = RecentActions_result env (batchSize sch);
          (sch1, evs) =
            (case err of
               Some e \<Rightarrow> (sch, [Log_Errorf ''codeforces query failed with error %v'' e])
             | None \<Rightarrow>
                 (let ((newActions, maxTimestampAfterInsertion), sch0) = filter_sch sch actions
                  in case AddRecentActions_result env newActions of
                       Some e \<Rightarrow>
                         (sch0, [Call_AddRecentActions newActions,
                                 Log_Errorf ''mongo insertion failed with error %v'' e])
                     | None \<Rightarrow>
                         (sch0\<lparr>lastInsertedTimestamp := maxTimestampAfterInsertion\<rparr>,
                          [Call_AddRecentActions newActions])))
      in (sch1, [Call_RecentActions (batchSize sch)] @ evs @ [Sleep (cooldown sch1)]))"

text \<open>
  \<^verbatim>\<open>Start\<close> is \<^verbatim>\<open>for { ... }\<close> with no \<^verbatim>\<open>break\<close>, \<^verbatim>\<open>return\<close> or panic in its body: it
  never returns. What can be observed of it is the scheduler and the events after its
  first iterations; \<open>Start_iterations script sch\<close> runs one iteration for each element
  of \<open>script\<close>, the answers of the collaborators in that iteration, in order.
\<close>

fun Start_iterations ::
  "'p collaborators list \<Rightarrow> CodeforcesScheduler \<Rightarrow> CodeforcesScheduler \<times> 'p event list" where
  "Start_iterations [] sch = (sch, [])"
| "Start_iterations (env # script) sch =
     (let (sch1, evs1) = cycle env sch;
          (sch2, evs2) = Start_iterations script sch1
      in (sch2, evs1 @ evs2))"

text \<open>
  The two ways a cycle can fail: the fetch returned a non-nil error; or the fetch
  returned none and \<^verbatim>\<open>AddRecentActions\<close>, called on what \<^verbatim>\<open>filter\<close> made of the batch,
  returned a non-nil error.
\<close>

definition fetch_failed :: "'p collaborators \<Rightarrow> CodeforcesScheduler \<Rightarrow> bool" where
  "fetch_failed env sch = (snd (RecentActions_result env (batchSize sch)) \<noteq> None)"

definition append_failed :: "'p collaborators \<Rightarrow> CodeforcesScheduler \<Rightarrow> bool" where
  "append_failed env sch =
     (snd (RecentActions_result env (batchSize sch)) = None
      \<and> AddRecentActions_result env
           (fst (fst (filter_sch sch (fst (RecentActions_result env (batchSize sch)))))) \<noteq> None)"

text \<open>Scripted collaborators for concrete runs: a client that answers a fixed pair, a
  store that answers a fixed error or none.\<close>

definition scripted ::
  "RecentAction slice \<times> error option \<Rightarrow> error option \<Rightarrow> unit collaborators" where
  "scripted fetched stored =
     \<lparr>RecentActions_result = (\<lambda>maxCount. fetched),
      AddRecentActions_result = (\<lambda>actions. stored)\<rparr>"

definition NewScheduler :: "int \<Rightarrow> int64 \<Rightarrow> int64 \<Rightarrow> CodeforcesScheduler" where
  "NewScheduler batchSize0 lastInsertedTimestamp0 coolDown =
     \<lparr>cooldown = coolDown, lastInsertedTimestamp = lastInsertedTimestamp0,
      batchSize = batchSize0\<rparr>"

section \<open>The Codeforces client\<close>

definition baseUrl :: string where
  "baseUrl = ''https://codeforces.com/api''"

definition recentActionsEndpoint :: string where
  "recentActionsEndpoint = ''/recentActions''"

definition kStatusOK :: string where
  "kStatusOK = ''OK''"

record request =
  Method :: string
  URL :: string
  RawQuery :: "(string \<times> int) list"

text \<open>The anonymous struct that the response body is unmarshalled into.\<close>

record 'p wrapper =
  Status :: string
  Comment :: string
  Result :: "'p RecentAction_scheme slice"

text \<open>
  The library calls of \<^verbatim>\<open>RecentActions\<close> and what they answer: \<^verbatim>\<open>http.NewRequest\<close>,
  \<^verbatim>\<open>cf.client.Do\<close>, \<^verbatim>\<open>ioutil.ReadAll\<close> on the body of the response (of type \<open>'r\<close>)
  and \<^verbatim>\<open>json.Unmarshal\<close> into the wrapper. Each returns an error (\<open>Inl\<close>) or a value.
\<close>

record ('p, 'r) http_world =
  http_NewRequest :: "string \<Rightarrow> string \<Rightarrow> error + request"
  client_Do :: "request \<Rightarrow> error + 'r"
  ioutil_ReadAll :: "'r \<Rightarrow> error + string"
  json_Unmarshal :: "string \<Rightarrow> error + 'p wrapper"

text \<open>Lines 46 to 48 of \<^verbatim>\<open>RecentActions\<close>: the query of the request gets the parameter
  \<^verbatim>\<open>maxCount\<close> added.\<close>

definition add_maxCount :: "request \<Rightarrow> int \<Rightarrow> request" where
  "add_maxCount req maxCount = req\<lparr>RawQuery := RawQuery req @ [(''maxCount'', maxCount)]\<rparr>"

definition RecentActions ::
  "('p, 'r) http_world \<Rightarrow> int \<Rightarrow> 'p RecentAction_scheme slice \<times> error option" where
  "RecentActions net maxCount =
     (let url = baseUrl @ recentActionsEndpoint
      in case http_NewRequest net ''GET'' url of
           Inl err \<Rightarrow>
             (None, Some (Errorf_w
                ''could not create request for /recentActions api with error [%w]'' err))
         | Inr req0 \<Rightarrow>
             (let req = add_maxCount req0 maxCount
              in case client_Do net req of
                   Inl err \<Rightarrow>
                     (None, Some (Errorf_w
                        ''http call to /recentActions failed with error [%w]'' err))
                 | Inr resp \<Rightarrow>
                     (case ioutil_ReadAll net resp of
                        Inl err \<Rightarrow>
                          (None, Some (Errorf_w
                             ''could not read response of /recentActions with error [%w]'' err))
                      | Inr body \<Rightarrow>
                          (case json_Unmarshal net body of
                             Inl err \<Rightarrow>
                               (None, Some (Errorf_w
                                  ''could not unmarshal /recentActions response with error [%w]''
                                  err))
                           | Inr wrapper \<Rightarrow>
                               if Status wrapper \<noteq> kStatusOK
                               then (None, Some (Errorf_s
                                  ''codeforces returned an internal error with comment [%s]''
                                  (Comment wrapper)))
                               else (Result wrapper, None)))))"

section \<open>The MongoDB store\<close>

definition kRecentActionsCollectionName :: string where
  "kRecentActionsCollectionName = ''recent_actions''"

definition kActivityCreationTimeKey :: string where
  "kActivityCreationTimeKey = ''timeSeconds''"

text \<open>
  The driver's collection handle, as far as the store uses it: \<^verbatim>\<open>InsertMany\<close> on a slice
  of documents answers an error or none; \<^verbatim>\<open>Aggregate\<close> on a pipeline answers an error
  or a cursor, the sequence of result documents (of type \<open>'d\<close>) that \<^verbatim>\<open>cursor.Next\<close>
  steps through; \<^verbatim>\<open>cursor.Decode\<close> of a document into \<^verbatim>\<open>struct{Max int64}\<close> answers
  an error or the value of \<^verbatim>\<open>Max\<close>.
\<close>

record ('p, 'd) collection =
  InsertMany :: "'p RecentAction_scheme slice \<Rightarrow> error option"
  Aggregate :: "pipeline \<Rightarrow> error + 'd list"
  Decode :: "'d \<Rightarrow> error + int64"

record ('p, 'd) mongoStore =
  recentActionsCollection :: "('p, 'd) collection"

text \<open>
  \<^verbatim>\<open>AddRecentActions\<close>: the guard is \<^verbatim>\<open>actions == nil\<close>; any other slice is copied,
  element by element, into \<^verbatim>\<open>docs\<close> (which starts as the nil slice) and handed to
  \<^verbatim>\<open>InsertMany\<close>.
\<close>

definition AddRecentActions ::
  "('p, 'd) mongoStore \<Rightarrow> 'p RecentAction_scheme slice \<Rightarrow> error option \<times> 'p event list" where
  "AddRecentActions store actions =
     (case actions of
        None \<Rightarrow> (None, [])
      | Some xs \<Rightarrow>
          (let docs = fold (\<lambda>action docs. append_go docs action) xs None
           in case InsertMany (recentActionsCollection store) docs of
                Some err \<Rightarrow>
                  (Some (Errorf_w ''bulk insert failed with error [%w]'' err),
                   [Call_InsertMany docs])
              | None \<Rightarrow> (None, [Call_InsertMany docs])))"

text \<open>
  \<^verbatim>\<open>LastRecordedTimestampForRecentActions\<close>: the loop over the cursor returns in its
  first iteration, so only the first result document is looked at.
\<close>

definition LastRecordedTimestampForRecentActions ::
  "('p, 'd) mongoStore \<Rightarrow> int64 \<times> 'p event list" where
  "LastRecordedTimestampForRecentActions store =
     (let filter = Group_all_max (''$'' @ kActivityCreationTimeKey)
      in case Aggregate (recentActionsCollection store) filter of
           Inl err \<Rightarrow>
             (0, [Call_Aggregate filter,
                  Log_Errorf
                    ''Querying the max recorded activity timestamp failed with error %v'' err])
         | Inr cursor \<Rightarrow>
             (case cursor of
                [] \<Rightarrow> (0, [Call_Aggregate filter])
              | doc # _ \<Rightarrow>
                  (case Decode (recentActionsCollection store) doc of
                     Inl err \<Rightarrow>
                       (0, [Call_Aggregate filter,
                            Log_Errorf
                              ''Decoding of max activity timestamp failed with error%v'' err])
                   | Inr res_Max \<Rightarrow> (res_Max, [Call_Aggregate filter]))))"

text \<open>
  \<^verbatim>\<open>NewMongoStore\<close>: \<^verbatim>\<open>mongo.Connect\<close> answers an error or a client; the client
  answers \<^verbatim>\<open>Ping\<close> and hands out collection handles by database and collection name.
\<close>

record ('p, 'd) client =
  Ping :: "error option"
  Database_Collection :: "string \<Rightarrow> string \<Rightarrow> ('p, 'd) collection"

definition NewMongoStore ::
  "(string \<Rightarrow> error + ('p, 'd) client) \<Rightarrow> string \<Rightarrow> string \<Rightarrow> error + ('p, 'd) mongoStore" where
  "NewMongoStore mongo_Connect mongoURI databaseName =
     (case mongo_Connect mongoURI of
        Inl err \<Rightarrow> Inl (Errorf_w ''could not create mongo client with error [%w]'' err)
      | Inr cl \<Rightarrow>
          (case Ping cl of
             Some err \<Rightarrow> Inl (Errorf_w ''could not ping primary with error [%w]'' err)
           | None \<Rightarrow>
               Inr \<lparr>recentActionsCollection =
                      Database_Collection cl databaseName kRecentActionsCollectionName\<rparr>))"

section \<open>Program start\<close>

text \<open>
  \<^verbatim>\<open>main\<close> from the creation of the store to the creation of the scheduler (flag
  parsing and the logger set-up come before and decide nothing here). A failure of
  \<^verbatim>\<open>NewMongoStore\<close> ends the process (\<^verbatim>\<open>zap.S().Fatal\<close>): \<open>Inl\<close>. Otherwise the result
  is the scheduler that \<^verbatim>\<open>go sch.Start()\<close> is about to run, and the events so far.
  The cooldown is \<^verbatim>\<open>time.Duration(coolDownInMinutes) * time.Minute\<close>, an \<^verbatim>\<open>int64\<close>
  product in nanoseconds.
\<close>

definition main_startup ::
  "(string \<Rightarrow> error + ('p, 'd) client) \<Rightarrow> string \<Rightarrow> string \<Rightarrow> int \<Rightarrow> int
    \<Rightarrow> error + (CodeforcesScheduler \<times> 'p event list)" where
  "main_startup mongo_Connect mongoAddr databaseName coolDownInMinutes batchSize0 =
     (case NewMongoStore mongo_Connect mongoAddr databaseName of
        Inl err \<Rightarrow> Inl err
      | Inr cfStore \<Rightarrow>
          (let (lastRecordedTimestamp, evs) = LastRecordedTimestampForRecentActions cfStore
           in Inr (NewScheduler batchSize0 lastRecordedTimestamp
                     (word_of_int coolDownInMinutes * 60000000000),
                   evs)))"

text \<open>
  The collaborators that \<^verbatim>\<open>main\<close> hands to the scheduler: the Codeforces client over
  the network as it answers in a cycle, and the MongoDB store.
\<close>

definition wired ::
  "('p, 'r) http_world \<Rightarrow> ('p, 'd) mongoStore \<Rightarrow> 'p collaborators" where
  "wired net store =
     \<lparr>RecentActions_result = RecentActions net,
      AddRecentActions_result = (\<lambda>actions. fst (AddRecentActions store actions))\<rparr>"

text \<open>Concrete worlds for the witnesses: a feed that answers a given status, comment and
  result; a store whose driver rejects an empty list of documents, as the MongoDB driver
  does; a store that answers the aggregation and the decoding as given; and a
  connection that succeeds and hands out the collection of a given store.\<close>

definition feed_status ::
  "string \<Rightarrow> string \<Rightarrow> RecentAction slice \<Rightarrow> (unit, unit) http_world" where
  "feed_status status comment result =
     \<lparr>http_NewRequest = (\<lambda>method url. Inr \<lparr>Method = method, URL = url, RawQuery = []\<rparr>),
      client_Do = (\<lambda>req. Inr ()),
      ioutil_ReadAll = (\<lambda>resp. Inr ''''),
      json_Unmarshal =
        (\<lambda>body. Inr \<lparr>Status = status, Comment = comment, Result = result\<rparr>)\<rparr>"

definition store_rejecting_empty :: "(unit, int64) mongoStore" where
  "store_rejecting_empty =
     \<lparr>recentActionsCollection =
        \<lparr>InsertMany =
           (\<lambda>docs. if elems docs = []
                    then Some (LibraryError ''must provide at least one element in input slice'')
                    else None),
         Aggregate = (\<lambda>p. Inr [100]), Decode = Inr\<rparr>\<rparr>"

definition store_answering ::
  "(error + int64 list) \<Rightarrow> (int64 \<Rightarrow> error + int64) \<Rightarrow> (unit, int64) mongoStore" where
  "store_answering aggregated decode =
     \<lparr>recentActionsCollection =
        \<lparr>InsertMany = (\<lambda>docs. None), Aggregate = (\<lambda>p. aggregated), Decode = decode\<rparr>\<rparr>"

definition connect_to :: "('p, 'd) mongoStore \<Rightarrow> string \<Rightarrow> error + ('p, 'd) client" where
  "connect_to store mongoURI =
     Inr \<lparr>Ping = None,
          Database_Collection = (\<lambda>databaseName name. recentActionsCollection store)\<rparr>"

text \<open>Concrete collaborators for the end-to-end scenario: a network over which the
  feed answers status OK with a given batch, and a store whose driver accepts every
  insertion and reports 100 as the maximum.\<close>

definition feed :: "RecentAction list \<Rightarrow> (unit, unit) http_world" where
  "feed batch = feed_status ''OK'' '''' (Some batch)"

definition store_ok :: "(unit, int64) mongoStore" where
  "store_ok =
     \<lparr>recentActionsCollection =
        \<lparr>InsertMany = (\<lambda>docs. None), Aggregate = (\<lambda>p. Inr [100]), Decode = Inr\<rparr>\<rparr>"

section \<open>Properties of the filter\<close>

lemma Max_insert_insert:
  fixes a b :: int
  assumes "finite S"
  shows "Max (insert a (insert b S)) = Max (insert (max a b) S)"
proof (cases "S = {}")
  case True
  then show ?thesis by simp
next
  case False
  with assms show ?thesis by (simp add: max.assoc)
qed

lemma filter_loop_new:
  "fst (filter_loop w xs m new) =
     (if filter (\<lambda>a. w <s TimeSeconds a) xs = [] then new
      else Some (elems new @ filter (\<lambda>a. w <s TimeSeconds a) xs))"
proof (induction xs arbitrary: m new)
  case Nil
  show ?case by simp
next
  case (Cons a xs)
  show ?case
    by (simp add: Cons.IH Let_def append_go_def elems_def)
qed

lemma filter_loop_max:
  "sint (snd (filter_loop w xs m new)) =
     Max (insert (sint m) ((\<lambda>a. sint (TimeSeconds a)) ` set xs))"
proof (induction xs arbitrary: m new)
  case Nil
  show ?case by simp
next
  case (Cons a xs)
  have step: "sint (if m <s TimeSeconds a then TimeSeconds a else m)
      = max (sint m) (sint (TimeSeconds a))"
    by (simp add: word_sless_alt max_def)
  show ?case
    by (simp add: Cons.IH Let_def step Max_insert_insert del: Max_insert)
qed

lemma filter_loop_ge: "m \<le>s snd (filter_loop w xs m new)"
  by (simp add: word_sle_eq filter_loop_max)

lemma filter_sch_ge: "lastInsertedTimestamp sch \<le>s snd (fst (filter_sch sch actions))"
  by (simp add: filter_sch_def filter_loop_ge)

lemma filter_sch_new:
  "fst (fst (filter_sch sch actions)) =
     (if filter (\<lambda>a. lastInsertedTimestamp sch <s TimeSeconds a) (elems actions) = [] then None
      else Some (filter (\<lambda>a. lastInsertedTimestamp sch <s TimeSeconds a) (elems actions)))"
  by (simp add: filter_sch_def filter_loop_new elems_def)

text \<open>
  C1. For every batch, in any order, and every watermark \<open>W\<close> (the scheduler's
  \<^verbatim>\<open>lastInsertedTimestamp\<close>; non-negative or not), \<^verbatim>\<open>filter\<close> returns as new items exactly
  the items of the batch whose \<^verbatim>\<open>TimeSeconds\<close> is strictly greater than \<open>W\<close> as signed
  integers, in their order in the batch and as they are; and as candidate watermark
  the maximum of \<open>W\<close> and of the \<^verbatim>\<open>TimeSeconds\<close> of all items of the batch, new or not.
\<close>

theorem filter_sch_correct:
  "elems (fst (fst (filter_sch sch actions))) =
     filter (\<lambda>a. sint (lastInsertedTimestamp sch) < sint (TimeSeconds a)) (elems actions)
   \<and> sint (snd (fst (filter_sch sch actions))) =
       Max (insert (sint (lastInsertedTimestamp sch))
              ((\<lambda>a. sint (TimeSeconds a)) ` set (elems actions)))"
proof
  show "elems (fst (fst (filter_sch sch actions))) =
     filter (\<lambda>a. sint (lastInsertedTimestamp sch) < sint (TimeSeconds a)) (elems actions)"
    by (simp add: filter_sch_new word_sless_alt) (simp add: elems_def)
  show "sint (snd (fst (filter_sch sch actions))) =
       Max (insert (sint (lastInsertedTimestamp sch))
              ((\<lambda>a. sint (TimeSeconds a)) ` set (elems actions)))"
    by (simp add: filter_sch_def filter_loop_max)
qed

theorem filter_sch_correct_witness:
  "elems (fst (fst (filter_sch (sch_at 7) (Some [item 10, item 5, item 20])))) =
     filter (\<lambda>a. sint (lastInsertedTimestamp (sch_at 7)) < sint (TimeSeconds a))
       (elems (Some [item 10, item 5, item 20]))
   \<and> sint (snd (fst (filter_sch (sch_at 7) (Some [item 10, item 5, item 20])))) =
       Max (insert (sint (lastInsertedTimestamp (sch_at 7)))
              ((\<lambda>a. sint (TimeSeconds a)) ` set (elems (Some [item 10, item 5, item 20]))))"
  by (rule filter_sch_correct)

text \<open>
  C4. The three test vectors of the filter. On the empty batch (the nil slice and the
  empty slice alike) with watermark 42 the result is no new item and candidate watermark
  42; on \<^verbatim>\<open>[{t:3},{t:3}]\<close> with watermark 5 it is no new item and 5; on
  \<^verbatim>\<open>[{t:10},{t:5}]\<close> with watermark 7 it is \<^verbatim>\<open>[{t:10}]\<close> and 10. "No new item" is
  Go's nil slice, since \<^verbatim>\<open>newActions\<close> is never appended to.
\<close>

theorem filter_vectors:
  "fst (filter_sch (sch_at 42) None) = (None, 42)
   \<and> fst (filter_sch (sch_at 42) (Some [])) = (None, 42)
   \<and> fst (filter_sch (sch_at 5) (Some [item 3, item 3])) = (None, 5)
   \<and> fst (filter_sch (sch_at 7) (Some [item 10, item 5])) = (Some [item 10], 10)"
  by (simp add: filter_sch_def sch_at_def elems_def item_def append_go_def)

text \<open>
  C6. \<^verbatim>\<open>filter\<close> leaves the scheduler, and with it \<^verbatim>\<open>lastInsertedTimestamp\<close>, as it
  was; a second call on the same batch, made on the scheduler that the first call
  left behind, returns the same new items and the same candidate watermark.
\<close>

theorem filter_sch_pure:
  "snd (filter_sch sch B) = sch
   \<and> fst (filter_sch (snd (filter_sch sch B)) B) = fst (filter_sch sch B)
   \<and> snd (filter_sch (snd (filter_sch sch B)) B) = sch"
  by (simp add: filter_sch_def)

theorem filter_sch_pure_witness:
  "snd (filter_sch (sch_at 7) (Some [item 10, item 5])) = sch_at 7
   \<and> fst (filter_sch (snd (filter_sch (sch_at 7) (Some [item 10, item 5])))
        (Some [item 10, item 5])) = fst (filter_sch (sch_at 7) (Some [item 10, item 5]))
   \<and> snd (filter_sch (snd (filter_sch (sch_at 7) (Some [item 10, item 5])))
        (Some [item 10, item 5])) = sch_at 7"
  by (rule filter_sch_pure)

section \<open>Properties of the cycle\<close>

lemma cycle_watermark_cases:
  "lastInsertedTimestamp (fst (cycle env sch)) =
     (if fetch_failed env sch \<or> append_failed env sch then lastInsertedTimestamp sch
      else snd (fst (filter_sch sch (fst (RecentActions_result env (batchSize sch))))))"
  by (auto simp: cycle_def fetch_failed_def append_failed_def filter_sch_def Let_def
           split: prod.splits option.splits)

lemma cycle_ge: "lastInsertedTimestamp sch \<le>s lastInsertedTimestamp (fst (cycle env sch))"
  by (simp add: cycle_watermark_cases filter_sch_ge)

lemma Start_iterations_Cons:
  "Start_iterations (env # script) sch =
     (fst (Start_iterations script (fst (cycle env sch))),
      snd (cycle env sch) @ snd (Start_iterations script (fst (cycle env sch))))"
  by (simp add: Let_def case_prod_beta)

lemma Start_iterations_append:
  "Start_iterations (xs @ ys) sch =
     (fst (Start_iterations ys (fst (Start_iterations xs sch))),
      snd (Start_iterations xs sch) @ snd (Start_iterations ys (fst (Start_iterations xs sch))))"
  by (induction xs arbitrary: sch) (simp_all add: Let_def case_prod_beta)

lemma Start_iterations_ge:
  "lastInsertedTimestamp sch \<le>s lastInsertedTimestamp (fst (Start_iterations script sch))"
proof (induction script arbitrary: sch)
  case Nil
  show ?case by simp
next
  case (Cons env script)
  have "lastInsertedTimestamp sch \<le>s lastInsertedTimestamp (fst (cycle env sch))"
    by (rule cycle_ge)
  also have "\<dots> \<le>s lastInsertedTimestamp (fst (Start_iterations script (fst (cycle env sch))))"
    by (rule Cons.IH)
  finally show ?case by (simp add: Start_iterations_Cons del: Start_iterations.simps)
qed

lemma cycle_failed_fetch:
  "fetch_failed env sch \<Longrightarrow>
   cycle env sch =
     (sch, [Call_RecentActions (batchSize sch),
            Log_Errorf ''codeforces query failed with error %v''
              (the (snd (RecentActions_result env (batchSize sch)))),
            Sleep (cooldown sch)])"
  by (auto simp: cycle_def fetch_failed_def Let_def split: prod.splits option.splits)

lemma cycle_failed_append:
  "append_failed env sch \<Longrightarrow>
   cycle env sch =
     (sch, [Call_RecentActions (batchSize sch),
            Call_AddRecentActions
              (fst (fst (filter_sch sch (fst (RecentActions_result env (batchSize sch)))))),
            Log_Errorf ''mongo insertion failed with error %v''
              (the (AddRecentActions_result env
                 (fst (fst (filter_sch sch (fst (RecentActions_result env (batchSize sch)))))))),
            Sleep (cooldown sch)])"
  by (auto simp: cycle_def append_failed_def filter_sch_def Let_def
           split: prod.splits option.splits)

text \<open>
  C2. Whatever the scheduler and whatever the collaborators answer in a cycle (fetch
  or append, success or failure): the candidate watermark of \<^verbatim>\<open>filter\<close> is at least the
  watermark it was given; the watermark after a cycle is at least the watermark before
  it; the watermark after \<open>N + 1\<close> iterations of \<^verbatim>\<open>Start\<close> is at least the one after \<open>N\<close>,
  and the watermark after any number of iterations is at least the initial one. The
  order is the signed one of \<^verbatim>\<open>int64\<close>.
\<close>

theorem watermark_monotone:
  "lastInsertedTimestamp sch \<le>s snd (fst (filter_sch sch actions))
   \<and> lastInsertedTimestamp sch \<le>s lastInsertedTimestamp (fst (cycle env sch))
   \<and> lastInsertedTimestamp (fst (Start_iterations script sch))
       \<le>s lastInsertedTimestamp (fst (Start_iterations (script @ [env]) sch))
   \<and> lastInsertedTimestamp sch \<le>s lastInsertedTimestamp (fst (Start_iterations script sch))"
proof -
  have "lastInsertedTimestamp (fst (Start_iterations script sch))
       \<le>s lastInsertedTimestamp (fst (Start_iterations (script @ [env]) sch))"
    by (simp add: Start_iterations_append Start_iterations_ge del: Start_iterations.simps)
  then show ?thesis
    by (simp add: filter_sch_ge cycle_ge Start_iterations_ge)
qed

theorem watermark_monotone_witness:
  "lastInsertedTimestamp (sch_at 100)
      \<le>s snd (fst (filter_sch (sch_at 100) (Some [item 90, item 110])))
   \<and> lastInsertedTimestamp (sch_at 100)
      \<le>s lastInsertedTimestamp
           (fst (cycle (scripted (Some [item 90, item 110], None) None) (sch_at 100)))
   \<and> lastInsertedTimestamp
        (fst (Start_iterations [scripted (None, Some (LibraryError ''timeout'')) None]
           (sch_at 100)))
       \<le>s lastInsertedTimestamp
            (fst (Start_iterations
               ([scripted (None, Some (LibraryError ''timeout'')) None]
                @ [scripted (Some [item 90, item 110], None) None]) (sch_at 100)))
   \<and> lastInsertedTimestamp (sch_at 100)
      \<le>s lastInsertedTimestamp
           (fst (Start_iterations [scripted (None, Some (LibraryError ''timeout'')) None]
              (sch_at 100)))"
  by (rule watermark_monotone)

text \<open>
  C3. A cycle whose fetch returns an error reports it, calls neither \<^verbatim>\<open>filter\<close> nor
  \<^verbatim>\<open>AddRecentActions\<close>, leaves the scheduler as it was and sleeps for the cooldown. A
  cycle whose append returns an error reports it, leaves the scheduler as it was and
  sleeps for the cooldown. After either, \<^verbatim>\<open>Start\<close> goes on with the next iterations
  from the unchanged scheduler. The watermark after a cycle is the candidate watermark
  when fetch and append both succeeded, and the old watermark otherwise.
\<close>

theorem cycle_failure_isolated:
  "(fetch_failed env sch \<longrightarrow>
      cycle env sch =
        (sch, [Call_RecentActions (batchSize sch),
               Log_Errorf ''codeforces query failed with error %v''
                 (the (snd (RecentActions_result env (batchSize sch)))),
               Sleep (cooldown sch)]))
   \<and> (append_failed env sch \<longrightarrow>
      cycle env sch =
        (sch, [Call_RecentActions (batchSize sch),
               Call_AddRecentActions
                 (fst (fst (filter_sch sch (fst (RecentActions_result env (batchSize sch)))))),
               Log_Errorf ''mongo insertion failed with error %v''
                 (the (AddRecentActions_result env
                    (fst (fst (filter_sch sch
                       (fst (RecentActions_result env (batchSize sch)))))))),
               Sleep (cooldown sch)]))
   \<and> (fetch_failed env sch \<or> append_failed env sch \<longrightarrow>
      Start_iterations (env # script) sch =
        (fst (Start_iterations script sch),
         snd (cycle env sch) @ snd (Start_iterations script sch)))
   \<and> lastInsertedTimestamp (fst (cycle env sch)) =
       (if fetch_failed env sch \<or> append_failed env sch then lastInsertedTimestamp sch
        else snd (fst (filter_sch sch (fst (RecentActions_result env (batchSize sch))))))"
proof (intro conjI impI)
  assume "fetch_failed env sch"
  then show "cycle env sch =
        (sch, [Call_RecentActions (batchSize sch),
               Log_Errorf ''codeforces query failed with error %v''
                 (the (snd (RecentActions_result env (batchSize sch)))),
               Sleep (cooldown sch)])"
    by (rule cycle_failed_fetch)
next
  assume "append_failed env sch"
  then show "cycle env sch =
        (sch, [Call_RecentActions (batchSize sch),
               Call_AddRecentActions
                 (fst (fst (filter_sch sch (fst (RecentActions_result env (batchSize sch)))))),
               Log_Errorf ''mongo insertion failed with error %v''
                 (the (AddRecentActions_result env
                    (fst (fst (filter_sch sch
                       (fst (RecentActions_result env (batchSize sch)))))))),
               Sleep (cooldown sch)])"
    by (rule cycle_failed_append)
next
  assume "fetch_failed env sch \<or> append_failed env sch"
  then have "fst (cycle env sch) = sch"
    by (auto simp: cycle_failed_fetch cycle_failed_append)
  then show "Start_iterations (env # script) sch =
        (fst (Start_iterations script sch),
         snd (cycle env sch) @ snd (Start_iterations script sch))"
    by (simp add: Start_iterations_Cons del: Start_iterations.simps)
next
  show "lastInsertedTimestamp (fst (cycle env sch)) =
       (if fetch_failed env sch \<or> append_failed env sch then lastInsertedTimestamp sch
        else snd (fst (filter_sch sch (fst (RecentActions_result env (batchSize sch))))))"
    by (rule cycle_watermark_cases)
qed

theorem cycle_failure_isolated_witness:
  "fetch_failed (scripted (None, Some (LibraryError ''timeout'')) None) (sch_at 100)
   \<and> cycle (scripted (None, Some (LibraryError ''timeout'')) None) (sch_at 100) =
       (sch_at 100,
        [Call_RecentActions 100,
         Log_Errorf ''codeforces query failed with error %v'' (LibraryError ''timeout''),
         Sleep 300000000000])
   \<and> append_failed
       (scripted (Some [item 90, item 110], None) (Some (LibraryError ''down''))) (sch_at 100)
   \<and> cycle (scripted (Some [item 90, item 110], None) (Some (LibraryError ''down'')))
       (sch_at 100) =
       (sch_at 100,
        [Call_RecentActions 100,
         Call_AddRecentActions (Some [item 110]),
         Log_Errorf ''mongo insertion failed with error %v'' (LibraryError ''down''),
         Sleep 300000000000])
   \<and> Start_iterations
       [scripted (None, Some (LibraryError ''timeout'')) None,
        scripted (Some [item 90, item 110], None) None] (sch_at 100) =
       (sch_at 110,
        [Call_RecentActions 100,
         Log_Errorf ''codeforces query failed with error %v'' (LibraryError ''timeout''),
         Sleep 300000000000,
         Call_RecentActions 100,
         Call_AddRecentActions (Some [item 110]),
         Sleep 300000000000])"
proof -
  let ?e1 = "scripted (None, Some (LibraryError ''timeout'')) None"
  let ?e2 = "scripted (Some [item 90, item 110], None) (Some (LibraryError ''down''))"
  let ?e3 = "scripted (Some [item 90, item 110], None) None"
  have h1: "fetch_failed ?e1 (sch_at 100)"
    by (simp add: fetch_failed_def scripted_def)
  have h2: "append_failed ?e2 (sch_at 100)"
    by (simp add: append_failed_def scripted_def)
  have new: "fst (fst (filter_sch (sch_at 100) (Some [item 90, item 110]))) = Some [item 110]"
    by (simp add: filter_sch_def sch_at_def elems_def item_def append_go_def)
  have c3: "cycle ?e3 (sch_at 100) =
      (sch_at 110, [Call_RecentActions 100, Call_AddRecentActions (Some [item 110]),
                    Sleep 300000000000])"
    by (simp add: cycle_def scripted_def filter_sch_def sch_at_def elems_def item_def
          append_go_def)
  note t1 = cycle_failure_isolated [of ?e1 "sch_at 100" "[?e3]"]
  note t2 = cycle_failure_isolated [of ?e2 "sch_at 100" "[]"]
  from t1 h1 have a: "cycle ?e1 (sch_at 100) =
       (sch_at 100,
        [Call_RecentActions 100,
         Log_Errorf ''codeforces query failed with error %v'' (LibraryError ''timeout''),
         Sleep 300000000000])"
    by (simp add: scripted_def sch_at_def)
  from t2 h2 new have b: "cycle ?e2 (sch_at 100) =
       (sch_at 100,
        [Call_RecentActions 100,
         Call_AddRecentActions (Some [item 110]),
         Log_Errorf ''mongo insertion failed with error %v'' (LibraryError ''down''),
         Sleep 300000000000])"
    by (simp add: scripted_def sch_at_def)
  from t1 h1 have "Start_iterations [?e1, ?e3] (sch_at 100) =
        (fst (Start_iterations [?e3] (sch_at 100)),
         snd (cycle ?e1 (sch_at 100)) @ snd (Start_iterations [?e3] (sch_at 100)))"
    by blast
  then have c: "Start_iterations [?e1, ?e3] (sch_at 100) =
       (sch_at 110,
        [Call_RecentActions 100,
         Log_Errorf ''codeforces query failed with error %v'' (LibraryError ''timeout''),
         Sleep 300000000000,
         Call_RecentActions 100,
         Call_AddRecentActions (Some [item 110]),
         Sleep 300000000000])"
    by (simp add: a c3)
  from h1 h2 a b c show ?thesis by blast
qed

section \<open>Properties of the client\<close>

text \<open>
  C8. \<^verbatim>\<open>RecentActions\<close> returns a non-nil error exactly when the request cannot be
  constructed, or the HTTP call fails, or the body of the response cannot be read, or
  the body cannot be unmarshalled, or the unmarshalled status is not "OK". When all
  four library calls succeed, it returns the parsed result with a nil error if the
  status is "OK", and otherwise the nil slice and an error that carries the comment of
  the response.
\<close>

theorem RecentActions_errors:
  "(snd (RecentActions net maxCount) \<noteq> None) =
     ((\<exists>e. http_NewRequest net ''GET'' (baseUrl @ recentActionsEndpoint) = Inl e)
      \<or> (\<exists>req e. http_NewRequest net ''GET'' (baseUrl @ recentActionsEndpoint) = Inr req
            \<and> client_Do net (add_maxCount req maxCount) = Inl e)
      \<or> (\<exists>req resp e. http_NewRequest net ''GET'' (baseUrl @ recentActionsEndpoint) = Inr req
            \<and> client_Do net (add_maxCount req maxCount) = Inr resp
            \<and> ioutil_ReadAll net resp = Inl e)
      \<or> (\<exists>req resp body e.
            http_NewRequest net ''GET'' (baseUrl @ recentActionsEndpoint) = Inr req
            \<and> client_Do net (add_maxCount req maxCount) = Inr resp
            \<and> ioutil_ReadAll net resp = Inr body
            \<and> json_Unmarshal net body = Inl e)
      \<or> (\<exists>req resp body w.
            http_NewRequest net ''GET'' (baseUrl @ recentActionsEndpoint) = Inr req
            \<and> client_Do net (add_maxCount req maxCount) = Inr resp
            \<and> ioutil_ReadAll net resp = Inr body
            \<and> json_Unmarshal net body = Inr w
            \<and> Status w \<noteq> ''OK''))
   \<and> (\<forall>req resp body w.
         http_NewRequest net ''GET'' (baseUrl @ recentActionsEndpoint) = Inr req
         \<and> client_Do net (add_maxCount req maxCount) = Inr resp
         \<and> ioutil_ReadAll net resp = Inr body
         \<and> json_Unmarshal net body = Inr w
         \<longrightarrow> RecentActions net maxCount =
              (if Status w = ''OK'' then (Result w, None)
               else (None,
                     Some (Errorf_s ''codeforces returned an internal error with comment [%s]''
                             (Comment w)))))"
  by (auto simp: RecentActions_def Let_def kStatusOK_def split: sum.splits)

theorem RecentActions_errors_witness:
  "RecentActions (feed_status ''FAILED'' ''Call limit exceeded'' None) 100 =
     (None, Some (Errorf_s ''codeforces returned an internal error with comment [%s]''
                    ''Call limit exceeded''))
   \<and> snd (RecentActions (feed_status ''FAILED'' ''Call limit exceeded'' None) 100) \<noteq> None
   \<and> RecentActions (feed_status ''OK'' '''' (Some [item 110])) 100 = (Some [item 110], None)"
proof -
  let ?bad = "feed_status ''FAILED'' ''Call limit exceeded'' None"
  let ?good = "feed_status ''OK'' '''' (Some [item 110])"
  let ?req = "\<lparr>Method = ''GET'', URL = baseUrl @ recentActionsEndpoint, RawQuery = []\<rparr>"
  have bad: "http_NewRequest ?bad ''GET'' (baseUrl @ recentActionsEndpoint) = Inr ?req
      \<and> client_Do ?bad (add_maxCount ?req 100) = Inr ()
      \<and> ioutil_ReadAll ?bad () = Inr ''''
      \<and> json_Unmarshal ?bad '''' =
          Inr \<lparr>Status = ''FAILED'', Comment = ''Call limit exceeded'', Result = None\<rparr>"
    by (simp add: feed_status_def)
  have good: "http_NewRequest ?good ''GET'' (baseUrl @ recentActionsEndpoint) = Inr ?req
      \<and> client_Do ?good (add_maxCount ?req 100) = Inr ()
      \<and> ioutil_ReadAll ?good () = Inr ''''
      \<and> json_Unmarshal ?good '''' =
          Inr \<lparr>Status = ''OK'', Comment = '''', Result = Some [item 110]\<rparr>"
    by (simp add: feed_status_def)
  have r1: "RecentActions ?bad 100 =
     (None, Some (Errorf_s ''codeforces returned an internal error with comment [%s]''
                    ''Call limit exceeded''))"
    using conjunct2 [OF RecentActions_errors [of ?bad 100], rule_format, OF bad] by simp
  have r2: "RecentActions ?good 100 = (Some [item 110], None)"
    using conjunct2 [OF RecentActions_errors [of ?good 100], rule_format, OF good] by simp
  from r1 r2 show ?thesis by simp
qed

section \<open>Properties of the store\<close>

lemma docs_copy_acc:
  "fold (\<lambda>action docs. append_go docs action) xs acc =
     (if xs = [] then acc else Some (elems acc @ xs))"
  by (induction xs arbitrary: acc) (simp_all add: append_go_def elems_def)

lemma docs_copy:
  "fold (\<lambda>action docs. append_go docs action) xs None = (if xs = [] then None else Some xs)"
  by (simp add: docs_copy_acc elems_def)

text \<open>
  C7, as stated, fails on the empty slice that is not nil: the guard of
  \<^verbatim>\<open>AddRecentActions\<close> is \<^verbatim>\<open>actions == nil\<close>, so the empty slice goes on to
  \<^verbatim>\<open>InsertMany\<close>, with the nil slice of documents. Against a driver that rejects an
  empty list of documents the call returns an error; against a driver that accepts
  everything it returns none, and the insertion was attempted all the same.
\<close>

theorem AddRecentActions_empty_counterexample:
  "AddRecentActions store_rejecting_empty (Some []) =
     (Some (Errorf_w ''bulk insert failed with error [%w]''
              (LibraryError ''must provide at least one element in input slice'')),
      [Call_InsertMany None])
   \<and> AddRecentActions store_rejecting_empty (Some []) \<noteq> (None, [])
   \<and> AddRecentActions store_ok (Some []) = (None, [Call_InsertMany None])
   \<and> AddRecentActions store_ok (Some []) \<noteq> (None, [])"
  by (simp add: AddRecentActions_def store_rejecting_empty_def store_ok_def elems_def)

text \<open>
  C7, amended. \<^verbatim>\<open>AddRecentActions\<close> treats the nil slice as a successful no-op: it
  returns no error and attempts no insertion. A slice with at least one element is
  handed to \<^verbatim>\<open>InsertMany\<close> once, with all its elements in order, and the call returns
  an error exactly when \<^verbatim>\<open>InsertMany\<close> does, wrapping it.
\<close>

theorem AddRecentActions_nil_noop:
  "AddRecentActions store None = (None, [])
   \<and> (xs \<noteq> [] \<longrightarrow>
        AddRecentActions store (Some xs) =
          (case InsertMany (recentActionsCollection store) (Some xs) of
             Some err \<Rightarrow>
               (Some (Errorf_w ''bulk insert failed with error [%w]'' err),
                [Call_InsertMany (Some xs)])
           | None \<Rightarrow> (None, [Call_InsertMany (Some xs)])))"
  by (simp add: AddRecentActions_def docs_copy Let_def)

theorem AddRecentActions_nil_noop_witness:
  "AddRecentActions store_rejecting_empty None = (None, [])
   \<and> [item 110, item 105] \<noteq> []
   \<and> AddRecentActions store_rejecting_empty (Some [item 110, item 105]) =
       (None, [Call_InsertMany (Some [item 110, item 105])])"
proof -
  have ne: "[item 110, item 105] \<noteq> []" by simp
  have ok: "InsertMany (recentActionsCollection store_rejecting_empty)
      (Some [item 110, item 105]) = None"
    by (simp add: store_rejecting_empty_def elems_def)
  note t = AddRecentActions_nil_noop [of store_rejecting_empty "[item 110, item 105]"]
  from t have nil: "AddRecentActions store_rejecting_empty None = (None, [])"
    by (rule conjunct1)
  from conjunct2 [OF t, rule_format, OF ne] ok
  have "AddRecentActions store_rejecting_empty (Some [item 110, item 105]) =
       (None, [Call_InsertMany (Some [item 110, item 105])])"
    by simp
  with nil ne show ?thesis by blast
qed

section \<open>Properties of the program start\<close>

lemma LastRecorded_cases:
  "LastRecordedTimestampForRecentActions store =
     (case Aggregate (recentActionsCollection store) (Group_all_max ''$timeSeconds'') of
        Inl err \<Rightarrow>
          (0, [Call_Aggregate (Group_all_max ''$timeSeconds''),
               Log_Errorf ''Querying the max recorded activity timestamp failed with error %v''
                 err])
      | Inr [] \<Rightarrow> (0, [Call_Aggregate (Group_all_max ''$timeSeconds'')])
      | Inr (doc # rest) \<Rightarrow>
          (case Decode (recentActionsCollection store) doc of
             Inl err \<Rightarrow>
               (0, [Call_Aggregate (Group_all_max ''$timeSeconds''),
                    Log_Errorf ''Decoding of max activity timestamp failed with error%v'' err])
           | Inr res_Max \<Rightarrow> (res_Max, [Call_Aggregate (Group_all_max ''$timeSeconds'')])))"
  by (simp add: LastRecordedTimestampForRecentActions_def kActivityCreationTimeKey_def Let_def
        split: sum.splits list.splits)

lemma main_startup_store:
  "NewMongoStore mongo_Connect mongoAddr databaseName = Inr store \<Longrightarrow>
   main_startup mongo_Connect mongoAddr databaseName coolDownInMinutes batchSize0 =
     Inr (NewScheduler batchSize0 (fst (LastRecordedTimestampForRecentActions store))
            (word_of_int coolDownInMinutes * 60000000000),
          snd (LastRecordedTimestampForRecentActions store))"
  by (simp add: main_startup_def case_prod_beta)

lemma NewMongoStore_connect_to:
  "NewMongoStore (connect_to store) mongoAddr databaseName = Inr store"
  by (simp add: NewMongoStore_def connect_to_def)



text \<open>
  C9. Once the store is created, \<^verbatim>\<open>main\<close> asks it once for the last recorded timestamp
  and creates the scheduler with that value as watermark, before \<^verbatim>\<open>Start\<close> runs and
  without any call to \<^verbatim>\<open>RecentActions\<close>. The value is 0 when the aggregation returns
  no document (the store holds no item), and \<open>T0\<close> when the first document that the
  aggregation returns decodes to \<open>T0\<close> (the maximum that the store reports).
\<close>

theorem watermark_seeded_from_store:
  assumes "NewMongoStore mongo_Connect mongoAddr databaseName = Inr store"
  shows "(Aggregate (recentActionsCollection store) (Group_all_max ''$timeSeconds'') = Inr []
          \<longrightarrow> fst (LastRecordedTimestampForRecentActions store) = 0)
     \<and> (\<forall>doc rest T0.
          Aggregate (recentActionsCollection store) (Group_all_max ''$timeSeconds'')
            = Inr (doc # rest)
          \<and> Decode (recentActionsCollection store) doc = Inr T0
          \<longrightarrow> fst (LastRecordedTimestampForRecentActions store) = T0)
     \<and> (\<exists>sch evs.
          main_startup mongo_Connect mongoAddr databaseName coolDownInMinutes batchSize0
            = Inr (sch, evs)
          \<and> lastInsertedTimestamp sch = fst (LastRecordedTimestampForRecentActions store)
          \<and> (\<forall>n. Call_RecentActions n \<notin> set evs)
          \<and> length (filter (\<lambda>ev. ev = Call_Aggregate (Group_all_max ''$timeSeconds'')) evs) = 1)"
proof (intro conjI)
  show "Aggregate (recentActionsCollection store) (Group_all_max ''$timeSeconds'') = Inr []
          \<longrightarrow> fst (LastRecordedTimestampForRecentActions store) = 0"
    by (simp add: LastRecorded_cases)
  show "\<forall>doc rest T0.
          Aggregate (recentActionsCollection store) (Group_all_max ''$timeSeconds'')
            = Inr (doc # rest)
          \<and> Decode (recentActionsCollection store) doc = Inr T0
          \<longrightarrow> fst (LastRecordedTimestampForRecentActions store) = T0"
    by (simp add: LastRecorded_cases)
  have evs: "(\<forall>n. Call_RecentActions n \<notin> set (snd (LastRecordedTimestampForRecentActions store)))
     \<and> length (filter (\<lambda>ev. ev = Call_Aggregate (Group_all_max ''$timeSeconds''))
          (snd (LastRecordedTimestampForRecentActions store))) = 1"
    by (simp add: LastRecorded_cases split: sum.splits list.splits)
  show "\<exists>sch evs.
          main_startup mongo_Connect mongoAddr databaseName coolDownInMinutes batchSize0
            = Inr (sch, evs)
          \<and> lastInsertedTimestamp sch = fst (LastRecordedTimestampForRecentActions store)
          \<and> (\<forall>n. Call_RecentActions n \<notin> set evs)
          \<and> length (filter (\<lambda>ev. ev = Call_Aggregate (Group_all_max ''$timeSeconds'')) evs) = 1"
    using evs by (simp add: main_startup_store [OF assms] NewScheduler_def)
qed

theorem watermark_seeded_from_store_witness:
  "NewMongoStore (connect_to (store_answering (Inr [100]) Inr)) ''mongodb://localhost:27017''
      ''cfrss-local'' = Inr (store_answering (Inr [100]) Inr)
   \<and> main_startup (connect_to (store_answering (Inr [100]) Inr)) ''mongodb://localhost:27017''
       ''cfrss-local'' 5 100 =
       Inr (sch_at 100, [Call_Aggregate (Group_all_max ''$timeSeconds'')])
   \<and> fst (LastRecordedTimestampForRecentActions (store_answering (Inr [100]) Inr)) = 100
   \<and> NewMongoStore (connect_to (store_answering (Inr []) Inr)) ''mongodb://localhost:27017''
      ''cfrss-local'' = Inr (store_answering (Inr []) Inr)
   \<and> fst (LastRecordedTimestampForRecentActions (store_answering (Inr []) Inr)) = 0"
proof -
  let ?s = "store_answering (Inr [100]) Inr"
  let ?z = "store_answering (Inr []) Inr"
  have h: "NewMongoStore (connect_to ?s) ''mongodb://localhost:27017'' ''cfrss-local'' = Inr ?s"
    by (rule NewMongoStore_connect_to)
  have h0: "NewMongoStore (connect_to ?z) ''mongodb://localhost:27017'' ''cfrss-local''
      = Inr ?z"
    by (rule NewMongoStore_connect_to)
  have a: "Aggregate (recentActionsCollection ?s) (Group_all_max ''$timeSeconds'')
      = Inr (100 # []) \<and> Decode (recentActionsCollection ?s) 100 = Inr 100"
    by (simp add: store_answering_def)
  have a0: "Aggregate (recentActionsCollection ?z) (Group_all_max ''$timeSeconds'') = Inr []"
    by (simp add: store_answering_def)
  note t = watermark_seeded_from_store [OF h, of 5 100]
  note t0 = watermark_seeded_from_store [OF h0, of 5 100]
  have ts: "fst (LastRecordedTimestampForRecentActions ?s) = 100"
    by (rule conjunct1 [OF conjunct2 [OF t], rule_format, OF a])
  have ts0: "fst (LastRecordedTimestampForRecentActions ?z) = 0"
    by (rule conjunct1 [OF t0, rule_format, OF a0])
  have m: "main_startup (connect_to ?s) ''mongodb://localhost:27017'' ''cfrss-local'' 5 100 =
       Inr (sch_at 100, [Call_Aggregate (Group_all_max ''$timeSeconds'')])"
  proof -
    have "LastRecordedTimestampForRecentActions ?s
        = (100, [Call_Aggregate (Group_all_max ''$timeSeconds'')])"
      by (simp add: LastRecorded_cases store_answering_def)
    then show ?thesis
      by (simp add: main_startup_store [OF h] NewScheduler_def sch_at_def)
  qed
  from h h0 ts ts0 m show ?thesis by blast
qed




section \<open>The end-to-end scenario\<close>

text \<open>
  C5. The store reports 100 and \<^verbatim>\<open>main\<close> starts the scheduler with watermark 100. A
  cycle whose fetch returns \<^verbatim>\<open>[{t:90},{t:110},{t:105}]\<close> hands \<^verbatim>\<open>[{t:110},{t:105}]\<close>,
  in that order, to the store, which inserts them, and commits watermark 110; the
  next cycle, whose fetch returns \<^verbatim>\<open>[{t:110},{t:108}]\<close>, hands the nil slice to the
  store, which inserts nothing, and the watermark stays 110.
\<close>

theorem end_to_end_scenario:
  "main_startup (connect_to store_ok) ''mongodb://localhost:27017'' ''cfrss-local'' 5 100 =
     Inr (sch_at 100, [Call_Aggregate (Group_all_max ''$timeSeconds'')])
   \<and> Start_iterations
     [wired (feed [item 90, item 110, item 105]) store_ok,
      wired (feed [item 110, item 108]) store_ok] (sch_at 100) =
     (sch_at 110,
      [Call_RecentActions 100, Call_AddRecentActions (Some [item 110, item 105]),
       Sleep 300000000000,
       Call_RecentActions 100, Call_AddRecentActions None, Sleep 300000000000])
   \<and> cycle (wired (feed [item 90, item 110, item 105]) store_ok) (sch_at 100) =
     (sch_at 110,
      [Call_RecentActions 100, Call_AddRecentActions (Some [item 110, item 105]),
       Sleep 300000000000])
   \<and> cycle (wired (feed [item 110, item 108]) store_ok) (sch_at 110) =
     (sch_at 110,
      [Call_RecentActions 100, Call_AddRecentActions None, Sleep 300000000000])
   \<and> AddRecentActions store_ok (Some [item 110, item 105]) =
       (None, [Call_InsertMany (Some [item 110, item 105])])
   \<and> AddRecentActions store_ok None = (None, [])"
proof -
  have r1: "RecentActions (feed [item 90, item 110, item 105]) 100
      = (Some [item 90, item 110, item 105], None)"
    by (simp add: RecentActions_def feed_def feed_status_def kStatusOK_def)
  have r2: "RecentActions (feed [item 110, item 108]) 100 = (Some [item 110, item 108], None)"
    by (simp add: RecentActions_def feed_def feed_status_def kStatusOK_def)
  have a1: "AddRecentActions store_ok (Some [item 110, item 105]) =
       (None, [Call_InsertMany (Some [item 110, item 105])])"
    by (simp add: AddRecentActions_def store_ok_def append_go_def elems_def)
  have a2: "AddRecentActions store_ok None = (None, [])"
    by (simp add: AddRecentActions_def)
  have f1: "filter_sch (sch_at 100) (Some [item 90, item 110, item 105])
      = ((Some [item 110, item 105], 110), sch_at 100)"
    by (simp add: filter_sch_def sch_at_def elems_def item_def append_go_def)
  have f2: "filter_sch (sch_at 110) (Some [item 110, item 108]) = ((None, 110), sch_at 110)"
    by (simp add: filter_sch_def sch_at_def elems_def item_def append_go_def)
  have b: "batchSize (sch_at 100) = 100" "batchSize (sch_at 110) = 100"
    "cooldown (sch_at 110) = 300000000000"
    "(sch_at 100)\<lparr>lastInsertedTimestamp := 110\<rparr> = sch_at 110"
    "(sch_at 110)\<lparr>lastInsertedTimestamp := 110\<rparr> = sch_at 110"
    by (simp_all add: sch_at_def)
  have c1: "cycle (wired (feed [item 90, item 110, item 105]) store_ok) (sch_at 100) =
     (sch_at 110,
      [Call_RecentActions 100, Call_AddRecentActions (Some [item 110, item 105]),
       Sleep 300000000000])"
    by (simp add: cycle_def wired_def r1 f1 a1 b)
  have c2: "cycle (wired (feed [item 110, item 108]) store_ok) (sch_at 110) =
     (sch_at 110,
      [Call_RecentActions 100, Call_AddRecentActions None, Sleep 300000000000])"
    by (simp add: cycle_def wired_def r2 f2 a2 b)
  have st: "main_startup (connect_to store_ok) ''mongodb://localhost:27017'' ''cfrss-local''
      5 100 = Inr (sch_at 100, [Call_Aggregate (Group_all_max ''$timeSeconds'')])"
  proof -
    have "LastRecordedTimestampForRecentActions store_ok
        = (100, [Call_Aggregate (Group_all_max ''$timeSeconds'')])"
      by (simp add: LastRecorded_cases store_ok_def)
    then show ?thesis
      by (simp add: main_startup_store [OF NewMongoStore_connect_to] NewScheduler_def
            sch_at_def)
  qed
  show ?thesis
    by (simp add: st c1 c2 a1 a2)
qed

end
